theory Spec2Isabelle
  imports Complex_Main
begin

section \<open>The rate-limited proxy endpoint of worker.js\<close>

text \<open>
  The worker exports one handler, \<open>fetch(request, env)\<close>, and three helpers:
  \<open>checkRateLimit\<close>, \<open>corsHeaders\<close> and \<open>handleCORS\<close>. The handler is asynchronous
  only in that it awaits the key-value store, the request body and the upstream call one
  after the other; the model is the sequential function it computes. Everything the
  handler does to the world is returned: the key-value namespace after the request and the
  list of outbound calls in the order they were issued. Console output is not modelled.
\<close>

subsection \<open>Configuration (worker.js, lines 7 to 15)\<close>

definition ANTHROPIC_API_URL :: string where
  "ANTHROPIC_API_URL = ''https://api.anthropic.com/v1/messages''"

definition ANTHROPIC_VERSION :: string where
  "ANTHROPIC_VERSION = ''2023-06-01''"

definition MODEL :: string where
  "MODEL = ''claude-3-haiku-20240307''"

definition MAX_TOKENS :: int where
  "MAX_TOKENS = 500"

definition TEMPERATURE :: rat where
  "TEMPERATURE = 7 / 10"

definition RATE_LIMIT_REQUESTS :: int where
  "RATE_LIMIT_REQUESTS = 50"

definition RATE_LIMIT_WINDOW :: int where
  "RATE_LIMIT_WINDOW = 3600"

subsection \<open>JavaScript values\<close>

text \<open>
  The values the handler meets: what \<open>JSON.parse\<close> produces, and \<open>undefined\<close> for a
  property that is not there. A number carries its numeric value; the handler only ever
  tests one for truthiness. An object is the list of its own properties, the first binding
  of a name being the one it has.
\<close>

datatype jsval =
    JUndefined
  | JNull
  | JBool bool
  | JNum rat
  | JStr string
  | JArr "jsval list"
  | JObj "(string \<times> jsval) list"

text \<open>An exception thrown, or a promise rejected.\<close>

datatype exn = TypeError | Rejected string

text \<open>\<open>ToBoolean\<close>: what \<open>!v\<close> and \<open>v || w\<close> test.\<close>

fun truthy :: "jsval \<Rightarrow> bool" where
  "truthy JUndefined = False"
| "truthy JNull = False"
| "truthy (JBool b) = b"
| "truthy (JNum n) = (n \<noteq> 0)"
| "truthy (JStr s) = (s \<noteq> [])"
| "truthy (JArr xs) = True"
| "truthy (JObj ps) = True"

definition js_or :: "jsval \<Rightarrow> jsval \<Rightarrow> jsval" where
  "js_or a b = (if truthy a then a else b)"

text \<open>
  \<open>v.name\<close> for the names the handler reads (\<open>prompt\<close>, \<open>message\<close>, \<open>system\<close>,
  \<open>content\<close>, \<open>type\<close>, \<open>text\<close>), none of which a built-in prototype defines: reading a
  property of \<open>null\<close> or \<open>undefined\<close> throws a TypeError, an object gives its own
  property or \<open>undefined\<close>, every other value gives \<open>undefined\<close>.
\<close>

fun get_prop :: "jsval \<Rightarrow> string \<Rightarrow> exn + jsval" where
  "get_prop JUndefined k = Inl TypeError"
| "get_prop JNull k = Inl TypeError"
| "get_prop (JObj ps) k = Inr (case map_of ps k of None \<Rightarrow> JUndefined | Some v \<Rightarrow> v)"
| "get_prop v k = Inr JUndefined"

fun is_string :: "jsval \<Rightarrow> bool" where
  "is_string (JStr s) = True"
| "is_string v = False"

fun str_of :: "jsval \<Rightarrow> string" where
  "str_of (JStr s) = s"
| "str_of v = []"

subsection \<open>The key-value namespace bound as \<open>env.RATE_LIMIT\<close>\<close>

text \<open>
  The limiter is the only writer of its namespace, so a stored value is a record
  \<open>{count, resetAt}\<close> of integers, which \<open>JSON.stringify\<close> and the \<open>json\<close> read return
  unchanged. An entry keeps the \<open>expirationTtl\<close> it was written with. The namespace is a
  remote service: \<open>get_fails\<close> and \<open>put_fails\<close> say which calls reject. Expiry itself is the
  store's work: an entry the store has dropped is an entry that is absent here.
\<close>

record rl_record =
  count :: int
  resetAt :: int

record kv_entry =
  val :: rl_record
  expirationTtl :: int

record kv_namespace =
  entries :: "string \<rightharpoonup> kv_entry"
  get_fails :: "string \<Rightarrow> bool"
  put_fails :: "string \<Rightarrow> rl_record \<Rightarrow> int \<Rightarrow> bool"

definition kv_get :: "kv_namespace \<Rightarrow> string \<Rightarrow> exn + rl_record option" where
  "kv_get kv key =
     (if get_fails kv key then Inl (Rejected ''KV GET failed'')
      else Inr (map_option val (entries kv key)))"

definition kv_put :: "kv_namespace \<Rightarrow> string \<Rightarrow> rl_record \<Rightarrow> int \<Rightarrow> exn + kv_namespace" where
  "kv_put kv key v ttl =
     (if put_fails kv key v ttl then Inl (Rejected ''KV PUT failed'')
      else Inr (kv\<lparr>entries := (entries kv)(key \<mapsto> \<lparr>val = v, expirationTtl = ttl\<rparr>)\<rparr>))"

subsection \<open>Requests, responses, the upstream service\<close>

record request =
  http_method :: string
  headers :: "string \<rightharpoonup> string"
  json :: "exn + jsval"

datatype body = NoBody | TextBody string | JsonBody jsval

record response =
  status :: int
  resp_headers :: "(string \<times> string) list"
  resp_body :: body

text \<open>
  \<open>JsonBody v\<close> is the body \<open>JSON.stringify(v)\<close>. \<open>request.headers.get(name)\<close> is
  \<open>headers request name\<close>, \<open>None\<close> for \<open>null\<close>; \<open>await request.json()\<close> is \<open>json request\<close>.
  \<open>resp_headers\<close> are the headers the response carries: the ones passed to
  \<open>new Response\<close>, which name a \<open>Content-Type\<close> wherever the handler passes any; a
  response built from a string body with no headers passed carries the one header the
  constructor then adds, \<open>content-type: text/plain;charset=UTF-8\<close>.
\<close>

definition text_plain_headers :: "(string \<times> string) list" where
  "text_plain_headers = [(''content-type'', ''text/plain;charset=UTF-8'')]"

record upstream_request =
  up_url :: string
  up_method :: string
  up_headers :: "(string \<times> string) list"
  up_model :: string
  up_max_tokens :: int
  up_temperature :: rat
  up_system :: jsval
  up_messages :: "(string \<times> string) list"

text \<open>
  The upstream response: \<open>ok\<close> is true for a status from 200 to 299, \<open>text()\<close> and
  \<open>json()\<close> read the body and may reject.
\<close>

record upstream_response =
  up_status :: int
  up_text :: "exn + string"
  up_json :: "exn + jsval"

definition ok :: "upstream_response \<Rightarrow> bool" where
  "ok r = (200 \<le> up_status r \<and> up_status r \<le> 299)"

text \<open>
  What the runtime supplies: the clock \<open>Date.now()\<close> in milliseconds, the global
  \<open>fetch\<close>, and \<open>ToString\<close> on the values \<open>Array.prototype.join\<close> does not treat itself.
\<close>

record platform =
  Date_now :: int
  global_fetch :: "upstream_request \<Rightarrow> exn + upstream_response"
  ToString :: "jsval \<Rightarrow> exn + string"

record env =
  RATE_LIMIT :: "kv_namespace option"
  ANTHROPIC_API_KEY :: "string option"

datatype effect =
    KVGet string
  | KVPut string rl_record int
  | UpstreamFetch upstream_request

subsection \<open>CORS helpers (worker.js, lines 232 to 247)\<close>

definition corsHeaders :: "(string \<times> string) list" where
  "corsHeaders =
     [(''Content-Type'', ''application/json''),
      (''Access-Control-Allow-Origin'', ''*''),
      (''Access-Control-Allow-Methods'', ''POST, OPTIONS''),
      (''Access-Control-Allow-Headers'', ''Content-Type''),
      (''Access-Control-Max-Age'', ''86400'')]"

definition handleCORS :: response where
  "handleCORS = \<lparr>status = 204, resp_headers = corsHeaders, resp_body = NoBody\<rparr>"

subsection \<open>The rate limiter (worker.js, lines 157 to 226)\<close>

record rate_limit_result =
  allowed :: bool
  remaining :: int

record rl_outcome =
  rl_result :: rate_limit_result
  rl_store :: "kv_namespace option"
  rl_effects :: "effect list"

text \<open>The catch block: allow, with the full quota reported.\<close>

definition fail_open :: rate_limit_result where
  "fail_open = \<lparr>allowed = True, remaining = RATE_LIMIT_REQUESTS\<rparr>"

text \<open>
  One \<open>await env.RATE_LIMIT.put(...)\<close> inside the try block, after the read: the call is
  issued; if it rejects the catch block answers, otherwise the namespace holds the new
  entry and the branch returns \<open>res\<close>.
\<close>

definition put_and_return ::
  "kv_namespace \<Rightarrow> string \<Rightarrow> rl_record \<Rightarrow> int \<Rightarrow> rate_limit_result \<Rightarrow> rl_outcome" where
  "put_and_return kv key v ttl res =
     (case kv_put kv key v ttl of
        Inl e \<Rightarrow>
          \<lparr>rl_result = fail_open, rl_store = Some kv,
           rl_effects = [KVGet key, KVPut key v ttl]\<rparr>
      | Inr kv' \<Rightarrow>
          \<lparr>rl_result = res, rl_store = Some kv',
           rl_effects = [KVGet key, KVPut key v ttl]\<rparr>)"

definition checkRateLimit :: "platform \<Rightarrow> env \<Rightarrow> string \<Rightarrow> rl_outcome" where
  "checkRateLimit p env clientIP =
     (case RATE_LIMIT env of
        None \<Rightarrow> \<lparr>rl_result = fail_open, rl_store = None, rl_effects = []\<rparr>
      | Some kv \<Rightarrow>
          (let key = ''ratelimit:'' @ clientIP;
               now = Date_now p div 1000
           in case kv_get kv key of
                Inl e \<Rightarrow>
                  \<lparr>rl_result = fail_open, rl_store = Some kv, rl_effects = [KVGet key]\<rparr>
              | Inr None \<Rightarrow>
                  put_and_return kv key
                    \<lparr>count = 1, resetAt = now + RATE_LIMIT_WINDOW\<rparr> RATE_LIMIT_WINDOW
                    \<lparr>allowed = True, remaining = RATE_LIMIT_REQUESTS - 1\<rparr>
              | Inr (Some data) \<Rightarrow>
                  if now > resetAt data then
                    put_and_return kv key
                      \<lparr>count = 1, resetAt = now + RATE_LIMIT_WINDOW\<rparr> RATE_LIMIT_WINDOW
                      \<lparr>allowed = True, remaining = RATE_LIMIT_REQUESTS - 1\<rparr>
                  else if count data \<ge> RATE_LIMIT_REQUESTS then
                    \<lparr>rl_result = \<lparr>allowed = False, remaining = 0\<rparr>,
                     rl_store = Some kv, rl_effects = [KVGet key]\<rparr>
                  else
                    put_and_return kv key
                      \<lparr>count = count data + 1, resetAt = resetAt data\<rparr> (resetAt data - now)
                      \<lparr>allowed = True,
                       remaining = RATE_LIMIT_REQUESTS - (count data + 1)\<rparr>))"

subsection \<open>Extracting the reply text (worker.js, lines 113 to 116)\<close>

text \<open>
  \<open>data.content.filter(block => block.type === 'text').map(block => block.text).join('\n')\<close>.
  Only an array has \<open>filter\<close>; the callbacks read a property of each block, which throws
  on \<open>null\<close>; \<open>join\<close> renders \<open>undefined\<close> and \<open>null\<close> as the empty string and a string as
  itself.
\<close>

fun filter_text :: "jsval list \<Rightarrow> exn + jsval list" where
  "filter_text [] = Inr []"
| "filter_text (block # blocks) =
     (case get_prop block ''type'' of
        Inl e \<Rightarrow> Inl e
      | Inr t \<Rightarrow>
          (case filter_text blocks of
             Inl e \<Rightarrow> Inl e
           | Inr rest \<Rightarrow> Inr (if t = JStr ''text'' then block # rest else rest)))"

fun map_text :: "jsval list \<Rightarrow> exn + jsval list" where
  "map_text [] = Inr []"
| "map_text (block # blocks) =
     (case get_prop block ''text'' of
        Inl e \<Rightarrow> Inl e
      | Inr t \<Rightarrow>
          (case map_text blocks of
             Inl e \<Rightarrow> Inl e
           | Inr rest \<Rightarrow> Inr (t # rest)))"

fun join_element :: "platform \<Rightarrow> jsval \<Rightarrow> exn + string" where
  "join_element p JUndefined = Inr []"
| "join_element p JNull = Inr []"
| "join_element p (JStr s) = Inr s"
| "join_element p v = ToString p v"

fun join :: "platform \<Rightarrow> string \<Rightarrow> jsval list \<Rightarrow> exn + string" where
  "join p sep [] = Inr []"
| "join p sep [v] = join_element p v"
| "join p sep (v # w # vs) =
     (case join_element p v of
        Inl e \<Rightarrow> Inl e
      | Inr s \<Rightarrow>
          (case join p sep (w # vs) of
             Inl e \<Rightarrow> Inl e
           | Inr rest \<Rightarrow> Inr (s @ sep @ rest)))"

definition extract_text :: "platform \<Rightarrow> jsval \<Rightarrow> exn + string" where
  "extract_text p data =
     (case get_prop data ''content'' of
        Inl e \<Rightarrow> Inl e
      | Inr (JArr blocks) \<Rightarrow>
          (case filter_text blocks of
             Inl e \<Rightarrow> Inl e
           | Inr texts \<Rightarrow>
               (case map_text texts of
                  Inl e \<Rightarrow> Inl e
                | Inr vs \<Rightarrow> join p [CHR 0x0A] vs))
      | Inr v \<Rightarrow> Inl TypeError)"

subsection \<open>The handler (worker.js, lines 18 to 146)\<close>

record outcome =
  resp :: response
  store :: "kv_namespace option"
  effects :: "effect list"

definition json_response :: "int \<Rightarrow> jsval \<Rightarrow> response" where
  "json_response st v = \<lparr>status = st, resp_headers = corsHeaders, resp_body = JsonBody v\<rparr>"

definition error_response :: "int \<Rightarrow> string \<Rightarrow> response" where
  "error_response st msg = json_response st (JObj [(''error'', JStr msg)])"

text \<open>\<open>request.headers.get('CF-Connecting-IP') || 'unknown'\<close>\<close>

definition clientIP_of :: "request \<Rightarrow> string" where
  "clientIP_of request =
     (case headers request ''CF-Connecting-IP'' of
        None \<Rightarrow> ''unknown''
      | Some ip \<Rightarrow> if ip = [] then ''unknown'' else ip)"

text \<open>\<open>body.prompt || body.message\<close>: the right operand is read only when the left is falsy.\<close>

definition promptText_of :: "jsval \<Rightarrow> exn + jsval" where
  "promptText_of body =
     (case get_prop body ''prompt'' of
        Inl e \<Rightarrow> Inl e
      | Inr pr \<Rightarrow> if truthy pr then Inr pr else get_prop body ''message'')"

definition upstream_request_of :: "string \<Rightarrow> jsval \<Rightarrow> string \<Rightarrow> upstream_request" where
  "upstream_request_of apiKey sys promptText =
     \<lparr>up_url = ANTHROPIC_API_URL,
      up_method = ''POST'',
      up_headers =
        [(''Content-Type'', ''application/json''),
         (''x-api-key'', apiKey),
         (''anthropic-version'', ANTHROPIC_VERSION)],
      up_model = MODEL,
      up_max_tokens = MAX_TOKENS,
      up_temperature = TEMPERATURE,
      up_system = js_or sys (JStr ''You are a helpful AI assistant.''),
      up_messages = [(''user'', promptText)]\<rparr>"

text \<open>Lines 95 to 133: what the handler makes of the upstream response.\<close>

definition relay :: "platform \<Rightarrow> upstream_response \<Rightarrow> exn + response" where
  "relay p anthropicResponse =
     (if \<not> ok anthropicResponse then
        (case up_text anthropicResponse of
           Inl e \<Rightarrow> Inl e
         | Inr errorText \<Rightarrow> Inr (error_response 503 ''AI service temporarily unavailable''))
      else
        (case up_json anthropicResponse of
           Inl e \<Rightarrow> Inl e
         | Inr data \<Rightarrow>
             (case extract_text p data of
                Inl e \<Rightarrow> Inl e
              | Inr responseText \<Rightarrow>
                  Inr (json_response 200 (JObj [(''response'', JStr responseText)])))))"

text \<open>
  Lines 45 to 133, the try block after the rate-limit check: \<open>Inl\<close> is an exception on
  its way to the catch block; the calls already issued stay issued.
\<close>

definition forward :: "platform \<Rightarrow> request \<Rightarrow> env \<Rightarrow> (exn + response) \<times> effect list" where
  "forward p request env =
     (case json request of
        Inl e \<Rightarrow> (Inl e, [])
      | Inr body \<Rightarrow>
          (case promptText_of body of
             Inl e \<Rightarrow> (Inl e, [])
           | Inr promptText \<Rightarrow>
               if \<not> truthy promptText \<or> \<not> is_string promptText then
                 (Inr (error_response 400 ''Invalid request: prompt is required''), [])
               else
                 (case ANTHROPIC_API_KEY env of
                    None \<Rightarrow> (Inr (error_response 500 ''Service configuration error''), [])
                  | Some apiKey \<Rightarrow>
                      if apiKey = [] then
                        (Inr (error_response 500 ''Service configuration error''), [])
                      else
                        (case get_prop body ''system'' of
                           Inl e \<Rightarrow> (Inl e, [])
                         | Inr sys \<Rightarrow>
                             (let req = upstream_request_of apiKey sys (str_of promptText)
                              in case global_fetch p req of
                                   Inl e \<Rightarrow> (Inl e, [UpstreamFetch req])
                                 | Inr anthropicResponse \<Rightarrow>
                                     (relay p anthropicResponse, [UpstreamFetch req]))))))"

definition fetch :: "platform \<Rightarrow> request \<Rightarrow> env \<Rightarrow> outcome" where
  "fetch p request env =
     (if http_method request = ''OPTIONS'' then
        \<lparr>resp = handleCORS, store = RATE_LIMIT env, effects = []\<rparr>
      else if http_method request \<noteq> ''POST'' then
        \<lparr>resp = \<lparr>status = 405, resp_headers = text_plain_headers,
                 resp_body = TextBody ''Method not allowed''\<rparr>,
         store = RATE_LIMIT env, effects = []\<rparr>
      else
        (let clientIP = clientIP_of request;
             rateLimitResult = checkRateLimit p env clientIP
         in if \<not> allowed (rl_result rateLimitResult) then
              \<lparr>resp = error_response 429 ''Rate limit exceeded. Please try again later.'',
               store = rl_store rateLimitResult,
               effects = rl_effects rateLimitResult\<rparr>
            else
              (case forward p request env of
                 (Inl error, fx) \<Rightarrow>
                   \<lparr>resp = error_response 500 ''An unexpected error occurred'',
                    store = rl_store rateLimitResult,
                    effects = rl_effects rateLimitResult @ fx\<rparr>
               | (Inr r, fx) \<Rightarrow>
                   \<lparr>resp = r,
                    store = rl_store rateLimitResult,
                    effects = rl_effects rateLimitResult @ fx\<rparr>)))"

subsection \<open>Notions used to state the properties\<close>

text \<open>
  The reply as the specification words it: the blocks tagged \<open>text\<close>, their \<open>text\<close>
  fields, in order, with a separator between neighbours.
\<close>

definition is_text_block :: "jsval \<Rightarrow> bool" where
  "is_text_block block = (get_prop block ''type'' = Inr (JStr ''text''))"

definition block_text :: "jsval \<Rightarrow> string" where
  "block_text block = (case get_prop block ''text'' of Inr (JStr s) \<Rightarrow> s | _ \<Rightarrow> [])"

fun separated_by :: "string \<Rightarrow> string list \<Rightarrow> string" where
  "separated_by sep [] = []"
| "separated_by sep [s] = s"
| "separated_by sep (s # t # ts) = s @ sep @ separated_by sep (t # ts)"

text \<open>The invariant of the stored records: every count lies between 1 and the ceiling.\<close>

definition count_ok :: "kv_namespace \<Rightarrow> bool" where
  "count_ok kv =
     (\<forall>key e. entries kv key = Some e \<longrightarrow>
        1 \<le> count (val e) \<and> count (val e) \<le> RATE_LIMIT_REQUESTS)"

definition store_ok :: "kv_namespace option \<Rightarrow> bool" where
  "store_ok s = (case s of None \<Rightarrow> True | Some kv \<Rightarrow> count_ok kv)"

text \<open>
  Requests handled one after the other, each with the runtime it meets, the namespace
  left by one being the namespace the next one finds.
\<close>

fun serve :: "env \<Rightarrow> (platform \<times> request) list \<Rightarrow> env" where
  "serve env [] = env"
| "serve env ((p, request) # rest) =
     serve (env\<lparr>RATE_LIMIT := store (fetch p request env)\<rparr>) rest"

text \<open>Every key-value call among the effects is on the key \<open>key\<close>.\<close>

fun on_key :: "string \<Rightarrow> effect \<Rightarrow> bool" where
  "on_key key (KVGet k) = (k = key)"
| "on_key key (KVPut k v ttl) = (k = key)"
| "on_key key (UpstreamFetch req) = True"

fun is_upstream :: "effect \<Rightarrow> bool" where
  "is_upstream (UpstreamFetch req) = True"
| "is_upstream fx = False"

text \<open>The count stored under a key, if any.\<close>

definition stored_count :: "kv_namespace option \<Rightarrow> string \<Rightarrow> int option" where
  "stored_count s key =
     (case s of None \<Rightarrow> None | Some kv \<Rightarrow> map_option (\<lambda>e. count (val e)) (entries kv key))"

subsection \<open>Concrete namespaces, runtimes and requests\<close>

definition reliable_kv :: "(string \<rightharpoonup> kv_entry) \<Rightarrow> kv_namespace" where
  "reliable_kv m = \<lparr>entries = m, get_fails = (\<lambda>k. False), put_fails = (\<lambda>k v ttl. False)\<rparr>"

definition unreadable_kv :: "(string \<rightharpoonup> kv_entry) \<Rightarrow> kv_namespace" where
  "unreadable_kv m = \<lparr>entries = m, get_fails = (\<lambda>k. True), put_fails = (\<lambda>k v ttl. False)\<rparr>"

definition readonly_kv :: "(string \<rightharpoonup> kv_entry) \<Rightarrow> kv_namespace" where
  "readonly_kv m = \<lparr>entries = m, get_fails = (\<lambda>k. False), put_fails = (\<lambda>k v ttl. True)\<rparr>"

definition entry :: "int \<Rightarrow> int \<Rightarrow> int \<Rightarrow> kv_entry" where
  "entry c r ttl = \<lparr>val = \<lparr>count = c, resetAt = r\<rparr>, expirationTtl = ttl\<rparr>"

definition upstream_hello :: "upstream_request \<Rightarrow> exn + upstream_response" where
  "upstream_hello req =
     Inr \<lparr>up_status = 200,
          up_text = Inr ''ok'',
          up_json = Inr (JObj [(''content'',
            JArr [JObj [(''type'', JStr ''text''), (''text'', JStr ''Hello'')],
                  JObj [(''type'', JStr ''tool_use''), (''id'', JStr ''t1'')],
                  JObj [(''type'', JStr ''text''), (''text'', JStr ''World'')]])])\<rparr>"

definition upstream_overloaded :: "upstream_request \<Rightarrow> exn + upstream_response" where
  "upstream_overloaded req =
     Inr \<lparr>up_status = 529,
          up_text = Inr ''overloaded_error: upstream is busy'',
          up_json = Inr (JObj [(''type'', JStr ''error'')])\<rparr>"

definition runtime :: "int \<Rightarrow> (upstream_request \<Rightarrow> exn + upstream_response) \<Rightarrow> platform" where
  "runtime ms f = \<lparr>Date_now = ms, global_fetch = f, ToString = (\<lambda>v. Inl TypeError)\<rparr>"

definition env_of :: "kv_namespace option \<Rightarrow> env" where
  "env_of s = \<lparr>RATE_LIMIT = s, ANTHROPIC_API_KEY = Some ''sk-test''\<rparr>"

definition request_of :: "string \<Rightarrow> string option \<Rightarrow> jsval \<Rightarrow> request" where
  "request_of m ip b =
     \<lparr>http_method = m,
      headers = (\<lambda>name. if name = ''CF-Connecting-IP'' then ip else None),
      json = Inr b\<rparr>"

section \<open>Properties\<close>

subsection \<open>Auxiliary facts\<close>

lemma get_prop_defined:
  "v \<noteq> JUndefined \<Longrightarrow> v \<noteq> JNull \<Longrightarrow> \<exists>w. get_prop v k = Inr w"
  by (cases v) simp_all

lemma filter_text_eq:
  "\<forall>b \<in> set blocks. b \<noteq> JUndefined \<and> b \<noteq> JNull \<Longrightarrow>
   filter_text blocks = Inr (filter is_text_block blocks)"
proof (induction blocks)
  case Nil
  then show ?case by simp
next
  case (Cons b blocks)
  then obtain w where w: "get_prop b ''type'' = Inr w"
    using get_prop_defined [of b "''type''"] by auto
  from Cons have "filter_text blocks = Inr (filter is_text_block blocks)" by simp
  moreover have "is_text_block b = (w = JStr ''text'')"
    using w by (simp add: is_text_block_def)
  ultimately show ?case using w by simp
qed

lemma map_text_eq:
  "\<forall>b \<in> set bs. \<exists>s. get_prop b ''text'' = Inr (JStr s) \<Longrightarrow>
   map_text bs = Inr (map (\<lambda>b. JStr (block_text b)) bs)"
  by (induction bs) (auto simp: block_text_def)

lemma join_strings: "join p sep (map JStr ss) = Inr (separated_by sep ss)"
  by (induction sep ss rule: separated_by.induct) simp_all

lemma extract_text_eq:
  assumes "get_prop data ''content'' = Inr (JArr blocks)"
    and "\<forall>b \<in> set blocks. b \<noteq> JUndefined \<and> b \<noteq> JNull"
    and "\<forall>b \<in> set blocks. is_text_block b \<longrightarrow> (\<exists>s. get_prop b ''text'' = Inr (JStr s))"
  shows "extract_text p data =
           Inr (separated_by [CHR 0x0A] (map block_text (filter is_text_block blocks)))"
proof -
  have f: "filter_text blocks = Inr (filter is_text_block blocks)"
    using assms(2) by (rule filter_text_eq)
  have "\<forall>b \<in> set (filter is_text_block blocks). \<exists>s. get_prop b ''text'' = Inr (JStr s)"
    using assms(3) by simp
  then have m: "map_text (filter is_text_block blocks) =
                  Inr (map (\<lambda>b. JStr (block_text b)) (filter is_text_block blocks))"
    by (rule map_text_eq)
  have j: "join p [CHR 0x0A] (map (\<lambda>b. JStr (block_text b)) (filter is_text_block blocks)) =
             Inr (separated_by [CHR 0x0A] (map block_text (filter is_text_block blocks)))"
    using join_strings [of p "[CHR 0x0A]" "map block_text (filter is_text_block blocks)"]
    by (simp add: comp_def)
  show ?thesis
    by (simp add: extract_text_def assms(1) f m j)
qed

lemma fetch_POST_allowed:
  assumes "http_method request = ''POST''"
    and "allowed (rl_result (checkRateLimit p env (clientIP_of request)))"
  shows "fetch p request env =
           (let rl = checkRateLimit p env (clientIP_of request)
            in case forward p request env of
                 (Inl error, fx) \<Rightarrow>
                   \<lparr>resp = error_response 500 ''An unexpected error occurred'',
                    store = rl_store rl, effects = rl_effects rl @ fx\<rparr>
               | (Inr r, fx) \<Rightarrow>
                   \<lparr>resp = r, store = rl_store rl, effects = rl_effects rl @ fx\<rparr>)"
  using assms by (simp add: fetch_def Let_def)

lemma forward_upstream:
  assumes "json request = Inr body"
    and "promptText_of body = Inr (JStr t)" and "t \<noteq> []"
    and "ANTHROPIC_API_KEY env = Some k" and "k \<noteq> []"
    and "get_prop body ''system'' = Inr sys"
    and "global_fetch p (upstream_request_of k sys t) = Inr r"
  shows "forward p request env = (relay p r, [UpstreamFetch (upstream_request_of k sys t)])"
  using assms by (simp add: forward_def Let_def)

lemma put_and_return_simps:
  "rl_effects (put_and_return kv key v ttl res) = [KVGet key, KVPut key v ttl]"
  "allowed res \<Longrightarrow> allowed (rl_result (put_and_return kv key v ttl res))"
  "\<not> put_fails kv key v ttl \<Longrightarrow>
     rl_store (put_and_return kv key v ttl res) =
       Some (kv\<lparr>entries := (entries kv)(key \<mapsto> \<lparr>val = v, expirationTtl = ttl\<rparr>)\<rparr>)"
  "put_fails kv key v ttl \<Longrightarrow> rl_store (put_and_return kv key v ttl res) = Some kv"
  by (simp_all add: put_and_return_def kv_put_def fail_open_def)

lemma fetch_POST_store:
  "http_method request = ''POST'' \<Longrightarrow>
   store (fetch p request env) = rl_store (checkRateLimit p env (clientIP_of request))"
  by (simp add: fetch_def Let_def split: prod.splits sum.splits)

lemma fetch_not_POST:
  "http_method request \<noteq> ''POST'' \<Longrightarrow>
   store (fetch p request env) = RATE_LIMIT env \<and> effects (fetch p request env) = []"
  by (simp add: fetch_def)

lemma fetch_POST_rejected:
  assumes "http_method request = ''POST''"
    and "\<not> allowed (rl_result (checkRateLimit p env (clientIP_of request)))"
  shows "fetch p request env =
           \<lparr>resp = error_response 429 ''Rate limit exceeded. Please try again later.'',
            store = rl_store (checkRateLimit p env (clientIP_of request)),
            effects = rl_effects (checkRateLimit p env (clientIP_of request))\<rparr>"
  using assms by (simp add: fetch_def Let_def)


lemma forward_effects:
  "list_all is_upstream (snd (forward p request env))"
  by (simp add: forward_def Let_def split: sum.splits option.splits)

lemma checkRateLimit_on_key:
  "list_all (on_key (''ratelimit:'' @ ip)) (rl_effects (checkRateLimit p env ip))"
  by (simp add: checkRateLimit_def Let_def put_and_return_simps
           split: option.splits sum.splits)

lemma checkRateLimit_no_upstream:
  "\<not> list_ex is_upstream (rl_effects (checkRateLimit p env ip))"
  by (simp add: checkRateLimit_def Let_def put_and_return_simps
           split: option.splits sum.splits)

lemma checkRateLimit_puts:
  assumes "store_ok (RATE_LIMIT env)"
    and "KVPut k v ttl \<in> set (rl_effects (checkRateLimit p env ip))"
  shows "1 \<le> count v \<and> count v \<le> RATE_LIMIT_REQUESTS"
proof (cases "RATE_LIMIT env")
  case None
  with assms(2) show ?thesis by (simp add: checkRateLimit_def)
next
  case (Some kv)
  with assms(1) have ok: "count_ok kv" by (simp add: store_ok_def)
  show ?thesis
  proof (cases "kv_get kv (''ratelimit:'' @ ip)")
    case (Inl e)
    with Some assms(2) show ?thesis by (simp add: checkRateLimit_def)
  next
    case (Inr found)
    show ?thesis
    proof (cases found)
      case None
      with Some Inr assms(2) show ?thesis
        by (simp add: checkRateLimit_def put_and_return_simps RATE_LIMIT_REQUESTS_def)
    next
      case (Some data)
      with Inr obtain e where e: "entries kv (''ratelimit:'' @ ip) = Some e" "val e = data"
        by (auto simp: kv_get_def split: if_splits)
      with ok have "1 \<le> count data" by (auto simp: count_ok_def)
      with \<open>RATE_LIMIT env = Some kv\<close> Inr Some assms(2) show ?thesis
        by (auto simp: checkRateLimit_def Let_def put_and_return_simps RATE_LIMIT_REQUESTS_def
              split: if_splits)
    qed
  qed
qed

lemma count_ok_update:
  assumes "count_ok kv" and "1 \<le> count v" and "count v \<le> RATE_LIMIT_REQUESTS"
  shows "count_ok (kv\<lparr>entries := (entries kv)(key \<mapsto> \<lparr>val = v, expirationTtl = ttl\<rparr>)\<rparr>)"
  using assms by (auto simp: count_ok_def)

lemma put_and_return_store:
  "rl_store (put_and_return kv key v ttl res) = Some kv \<or>
   rl_store (put_and_return kv key v ttl res) =
     Some (kv\<lparr>entries := (entries kv)(key \<mapsto> \<lparr>val = v, expirationTtl = ttl\<rparr>)\<rparr>)"
  by (cases "put_fails kv key v ttl") (simp_all add: put_and_return_simps)

lemma checkRateLimit_store_ok:
  assumes "store_ok (RATE_LIMIT env)"
  shows "store_ok (rl_store (checkRateLimit p env ip))"
proof (cases "RATE_LIMIT env")
  case None
  then show ?thesis by (simp add: checkRateLimit_def store_ok_def)
next
  case (Some kv)
  with assms have ok: "count_ok kv" by (simp add: store_ok_def)
  have unchanged_or_put:
    "rl_store (checkRateLimit p env ip) = Some kv \<or>
     (\<exists>v ttl. KVPut (''ratelimit:'' @ ip) v ttl \<in> set (rl_effects (checkRateLimit p env ip)) \<and>
        rl_store (checkRateLimit p env ip) =
          Some (kv\<lparr>entries := (entries kv)((''ratelimit:'' @ ip) \<mapsto>
                  \<lparr>val = v, expirationTtl = ttl\<rparr>)\<rparr>))"
    using Some put_and_return_store [of kv "''ratelimit:'' @ ip"]
    by (auto simp: checkRateLimit_def Let_def put_and_return_simps
          split: option.splits sum.splits)
  then show ?thesis
  proof
    assume "rl_store (checkRateLimit p env ip) = Some kv"
    with ok show ?thesis by (simp add: store_ok_def)
  next
    assume "\<exists>v ttl. KVPut (''ratelimit:'' @ ip) v ttl \<in> set (rl_effects (checkRateLimit p env ip)) \<and>
        rl_store (checkRateLimit p env ip) =
          Some (kv\<lparr>entries := (entries kv)((''ratelimit:'' @ ip) \<mapsto>
                  \<lparr>val = v, expirationTtl = ttl\<rparr>)\<rparr>)"
    then obtain v ttl where
      put: "KVPut (''ratelimit:'' @ ip) v ttl \<in> set (rl_effects (checkRateLimit p env ip))"
      and st: "rl_store (checkRateLimit p env ip) =
          Some (kv\<lparr>entries := (entries kv)((''ratelimit:'' @ ip) \<mapsto>
                  \<lparr>val = v, expirationTtl = ttl\<rparr>)\<rparr>)"
      by blast
    from checkRateLimit_puts [OF assms put] ok st show ?thesis
      by (simp add: store_ok_def count_ok_update)
  qed
qed

lemma fetch_store_ok:
  assumes "store_ok (RATE_LIMIT env)"
  shows "store_ok (store (fetch p request env))"
proof (cases "http_method request = ''POST''")
  case True
  then show ?thesis
    using checkRateLimit_store_ok [OF assms] by (simp add: fetch_POST_store)
next
  case False
  then show ?thesis using assms by (simp add: fetch_not_POST)
qed

lemma serve_store_ok:
  "store_ok (RATE_LIMIT env) \<Longrightarrow> store_ok (RATE_LIMIT (serve env reqs))"
proof (induction reqs arbitrary: env)
  case Nil
  then show ?case by simp
next
  case (Cons a reqs)
  obtain p request where a: "a = (p, request)" by (cases a)
  have "store_ok (RATE_LIMIT (env\<lparr>RATE_LIMIT := store (fetch p request env)\<rparr>))"
    using fetch_store_ok [OF Cons.prems] by simp
  then show ?case using Cons.IH a by simp
qed

lemma fetch_effects_split:
  "http_method request = ''POST'' \<Longrightarrow>
   \<exists>fx. effects (fetch p request env) =
           rl_effects (checkRateLimit p env (clientIP_of request)) @ fx \<and>
         list_all is_upstream fx"
  using forward_effects [of p request env]
  by (auto simp: fetch_def Let_def split: prod.splits sum.splits)

lemmas fixture_defs =
  env_of_def reliable_kv_def unreadable_kv_def readonly_kv_def runtime_def entry_def
  request_of_def upstream_hello_def upstream_overloaded_def

lemmas handler_defs =
  fetch_def checkRateLimit_def put_and_return_def kv_get_def kv_put_def fail_open_def
  forward_def relay_def promptText_of_def clientIP_of_def upstream_request_of_def
  extract_text_def error_response_def json_response_def handleCORS_def corsHeaders_def
  ok_def js_or_def Let_def RATE_LIMIT_WINDOW_def RATE_LIMIT_REQUESTS_def

subsection \<open>The rate limiter\<close>

text \<open>
  C1. With a namespace bound and the read answered, the limiter is the fixed-window
  algorithm on the key \<open>ratelimit:\<close> followed by the client identifier, \<open>now\<close> being the
  clock in whole seconds: with no record, or with \<open>now > resetAt\<close>, it issues the write of
  \<open>{count: 1, resetAt: now + WINDOW}\<close> with expiry \<open>WINDOW\<close> and allows; otherwise with
  \<open>count \<ge> LIMIT\<close> it rejects, issues no write and leaves the namespace as it was;
  otherwise it issues the write of \<open>{count: count + 1, resetAt: resetAt}\<close> with expiry
  \<open>resetAt - now\<close> and allows. A write the store accepts is the entry found afterwards.
\<close>

theorem checkRateLimit_fixed_window:
  assumes bound: "RATE_LIMIT env = Some kv"
    and get_ok: "\<not> get_fails kv (''ratelimit:'' @ ident)"
  shows "let key = ''ratelimit:'' @ ident;
             now = Date_now p div 1000;
             out = checkRateLimit p env ident;
             fresh = \<lparr>count = 1, resetAt = now + RATE_LIMIT_WINDOW\<rparr>
         in (case entries kv key of
               None \<Rightarrow>
                 allowed (rl_result out) \<and>
                 rl_effects out = [KVGet key, KVPut key fresh RATE_LIMIT_WINDOW] \<and>
                 (\<not> put_fails kv key fresh RATE_LIMIT_WINDOW \<longrightarrow>
                    rl_store out = Some (kv\<lparr>entries := (entries kv)
                      (key \<mapsto> \<lparr>val = fresh, expirationTtl = RATE_LIMIT_WINDOW\<rparr>)\<rparr>))
             | Some e \<Rightarrow>
                 if now > resetAt (val e) then
                   allowed (rl_result out) \<and>
                   rl_effects out = [KVGet key, KVPut key fresh RATE_LIMIT_WINDOW] \<and>
                   (\<not> put_fails kv key fresh RATE_LIMIT_WINDOW \<longrightarrow>
                      rl_store out = Some (kv\<lparr>entries := (entries kv)
                        (key \<mapsto> \<lparr>val = fresh, expirationTtl = RATE_LIMIT_WINDOW\<rparr>)\<rparr>))
                 else if count (val e) \<ge> RATE_LIMIT_REQUESTS then
                   \<not> allowed (rl_result out) \<and>
                   rl_effects out = [KVGet key] \<and>
                   rl_store out = Some kv
                 else
                   (let next = \<lparr>count = count (val e) + 1, resetAt = resetAt (val e)\<rparr>;
                        ttl = resetAt (val e) - now
                    in allowed (rl_result out) \<and>
                       rl_effects out = [KVGet key, KVPut key next ttl] \<and>
                       (\<not> put_fails kv key next ttl \<longrightarrow>
                          rl_store out = Some (kv\<lparr>entries := (entries kv)
                            (key \<mapsto> \<lparr>val = next, expirationTtl = ttl\<rparr>)\<rparr>))))"
  using bound get_ok
  by (simp add: checkRateLimit_def kv_get_def Let_def put_and_return_simps
           split: option.splits)

theorem checkRateLimit_fixed_window_witness:
  "RATE_LIMIT (env_of (Some (reliable_kv Map.empty))) = Some (reliable_kv Map.empty)
   \<and> \<not> get_fails (reliable_kv Map.empty) ''ratelimit:1.2.3.4''
   \<and> rl_effects (checkRateLimit (runtime 1700000000123 upstream_hello)
       (env_of (Some (reliable_kv Map.empty))) ''1.2.3.4'') =
     [KVGet ''ratelimit:1.2.3.4'',
      KVPut ''ratelimit:1.2.3.4'' \<lparr>count = 1, resetAt = 1700003600\<rparr> 3600]
   \<and> rl_effects (checkRateLimit (runtime 1700000000123 upstream_hello)
       (env_of (Some (reliable_kv [''ratelimit:1.2.3.4'' \<mapsto> entry 50 1700000100 3600])))
       ''1.2.3.4'') = [KVGet ''ratelimit:1.2.3.4'']
   \<and> \<not> allowed (rl_result (checkRateLimit (runtime 1700000000123 upstream_hello)
       (env_of (Some (reliable_kv [''ratelimit:1.2.3.4'' \<mapsto> entry 50 1700000100 3600])))
       ''1.2.3.4''))
   \<and> rl_effects (checkRateLimit (runtime 1700000000123 upstream_hello)
       (env_of (Some (reliable_kv [''ratelimit:1.2.3.4'' \<mapsto> entry 7 1700000100 3600])))
       ''1.2.3.4'') =
     [KVGet ''ratelimit:1.2.3.4'',
      KVPut ''ratelimit:1.2.3.4'' \<lparr>count = 8, resetAt = 1700000100\<rparr> 100]
   \<and> rl_effects (checkRateLimit (runtime 1700000101000 upstream_hello)
       (env_of (Some (reliable_kv [''ratelimit:1.2.3.4'' \<mapsto> entry 50 1700000100 3600])))
       ''1.2.3.4'') =
     [KVGet ''ratelimit:1.2.3.4'',
      KVPut ''ratelimit:1.2.3.4'' \<lparr>count = 1, resetAt = 1700003701\<rparr> 3600]"
  using
    checkRateLimit_fixed_window [of "env_of (Some (reliable_kv Map.empty))"
      "reliable_kv Map.empty" "''1.2.3.4''" "runtime 1700000000123 upstream_hello"]
    checkRateLimit_fixed_window
      [of "env_of (Some (reliable_kv [''ratelimit:1.2.3.4'' \<mapsto> entry 50 1700000100 3600]))"
      "reliable_kv [''ratelimit:1.2.3.4'' \<mapsto> entry 50 1700000100 3600]" "''1.2.3.4''"
      "runtime 1700000000123 upstream_hello"]
    checkRateLimit_fixed_window
      [of "env_of (Some (reliable_kv [''ratelimit:1.2.3.4'' \<mapsto> entry 7 1700000100 3600]))"
      "reliable_kv [''ratelimit:1.2.3.4'' \<mapsto> entry 7 1700000100 3600]" "''1.2.3.4''"
      "runtime 1700000000123 upstream_hello"]
    checkRateLimit_fixed_window
      [of "env_of (Some (reliable_kv [''ratelimit:1.2.3.4'' \<mapsto> entry 50 1700000100 3600]))"
      "reliable_kv [''ratelimit:1.2.3.4'' \<mapsto> entry 50 1700000100 3600]" "''1.2.3.4''"
      "runtime 1700000101000 upstream_hello"]
  by (simp add: env_of_def reliable_kv_def runtime_def entry_def Let_def
        RATE_LIMIT_WINDOW_def RATE_LIMIT_REQUESTS_def)

text \<open>
  C3. The stored count never exceeds the ceiling: if every stored count lies between 1 and
  \<open>RATE_LIMIT_REQUESTS\<close>, so it does after any sequence of requests, and every write a
  request issues stores such a count. A POST request that finds, for its client, a record
  with \<open>count \<ge> RATE_LIMIT_REQUESTS\<close> whose window has not passed is answered with 429,
  issues the read and nothing else, and leaves the namespace unchanged.
\<close>

theorem count_never_exceeds_limit:
  assumes "store_ok (RATE_LIMIT env)"
  shows "store_ok (RATE_LIMIT (serve env reqs))
     \<and> (\<forall>k v ttl. KVPut k v ttl \<in> set (effects (fetch p request env)) \<longrightarrow>
           1 \<le> count v \<and> count v \<le> RATE_LIMIT_REQUESTS)
     \<and> (\<forall>kv e. http_method request = ''POST''
           \<and> RATE_LIMIT env = Some kv
           \<and> \<not> get_fails kv (''ratelimit:'' @ clientIP_of request)
           \<and> entries kv (''ratelimit:'' @ clientIP_of request) = Some e
           \<and> Date_now p div 1000 \<le> resetAt (val e)
           \<and> RATE_LIMIT_REQUESTS \<le> count (val e) \<longrightarrow>
           status (resp (fetch p request env)) = 429
           \<and> store (fetch p request env) = Some kv
           \<and> effects (fetch p request env) = [KVGet (''ratelimit:'' @ clientIP_of request)])"
proof -
  have a: "store_ok (RATE_LIMIT (serve env reqs))"
    using assms by (rule serve_store_ok)
  have b: "1 \<le> count v \<and> count v \<le> RATE_LIMIT_REQUESTS"
    if put: "KVPut k v ttl \<in> set (effects (fetch p request env))" for k v ttl
  proof (cases "http_method request = ''POST''")
    case False
    with put show ?thesis by (simp add: fetch_not_POST)
  next
    case True
    then obtain fx where fx: "effects (fetch p request env) =
           rl_effects (checkRateLimit p env (clientIP_of request)) @ fx"
      "list_all is_upstream fx"
      using fetch_effects_split by blast
    have "KVPut k v ttl \<notin> set fx"
      using fx(2) by (auto simp: list_all_iff)
    with put fx(1) have "KVPut k v ttl \<in> set (rl_effects (checkRateLimit p env (clientIP_of request)))"
      by simp
    with assms show ?thesis by (rule checkRateLimit_puts)
  qed
  have c: "status (resp (fetch p request env)) = 429
           \<and> store (fetch p request env) = Some kv
           \<and> effects (fetch p request env) = [KVGet (''ratelimit:'' @ clientIP_of request)]"
    if "http_method request = ''POST''" "RATE_LIMIT env = Some kv"
       "\<not> get_fails kv (''ratelimit:'' @ clientIP_of request)"
       "entries kv (''ratelimit:'' @ clientIP_of request) = Some e"
       "Date_now p div 1000 \<le> resetAt (val e)"
       "RATE_LIMIT_REQUESTS \<le> count (val e)" for kv e
  proof -
    have r: "checkRateLimit p env (clientIP_of request) =
        \<lparr>rl_result = \<lparr>allowed = False, remaining = 0\<rparr>, rl_store = Some kv,
         rl_effects = [KVGet (''ratelimit:'' @ clientIP_of request)]\<rparr>"
      using that(2-6) by (simp add: checkRateLimit_def kv_get_def Let_def)
    then have "\<not> allowed (rl_result (checkRateLimit p env (clientIP_of request)))" by simp
    from fetch_POST_rejected [OF that(1) this] r show ?thesis
      by (simp add: error_response_def json_response_def)
  qed
  from a b c show ?thesis by blast
qed

theorem count_never_exceeds_limit_witness:
  "store_ok (RATE_LIMIT
      (env_of (Some (reliable_kv [''ratelimit:1.2.3.4'' \<mapsto> entry 50 1700000100 3600]))))
   \<and> store_ok (RATE_LIMIT (serve
      (env_of (Some (reliable_kv [''ratelimit:1.2.3.4'' \<mapsto> entry 50 1700000100 3600])))
      [(runtime 1700000000123 upstream_hello,
        request_of ''POST'' (Some ''1.2.3.4'') (JObj [(''prompt'', JStr ''Hi'')])),
       (runtime 1700000000456 upstream_hello,
        request_of ''POST'' (Some ''5.6.7.8'') (JObj [(''prompt'', JStr ''Hi'')]))]))
   \<and> status (resp (fetch (runtime 1700000000123 upstream_hello)
        (request_of ''POST'' (Some ''1.2.3.4'') (JObj [(''prompt'', JStr ''Hi'')]))
        (env_of (Some (reliable_kv [''ratelimit:1.2.3.4'' \<mapsto> entry 50 1700000100 3600]))))) = 429
   \<and> effects (fetch (runtime 1700000000123 upstream_hello)
        (request_of ''POST'' (Some ''1.2.3.4'') (JObj [(''prompt'', JStr ''Hi'')]))
        (env_of (Some (reliable_kv [''ratelimit:1.2.3.4'' \<mapsto> entry 50 1700000100 3600])))) =
      [KVGet ''ratelimit:1.2.3.4'']"
proof -
  have h: "store_ok (RATE_LIMIT
      (env_of (Some (reliable_kv [''ratelimit:1.2.3.4'' \<mapsto> entry 50 1700000100 3600]))))"
    by (simp add: store_ok_def count_ok_def fixture_defs RATE_LIMIT_REQUESTS_def)
  have e: "http_method (request_of ''POST'' (Some ''1.2.3.4'') (JObj [(''prompt'', JStr ''Hi'')])) = ''POST''
      \<and> RATE_LIMIT (env_of (Some (reliable_kv [''ratelimit:1.2.3.4'' \<mapsto> entry 50 1700000100 3600])))
          = Some (reliable_kv [''ratelimit:1.2.3.4'' \<mapsto> entry 50 1700000100 3600])
      \<and> \<not> get_fails (reliable_kv [''ratelimit:1.2.3.4'' \<mapsto> entry 50 1700000100 3600])
            (''ratelimit:'' @ clientIP_of
               (request_of ''POST'' (Some ''1.2.3.4'') (JObj [(''prompt'', JStr ''Hi'')])))
      \<and> entries (reliable_kv [''ratelimit:1.2.3.4'' \<mapsto> entry 50 1700000100 3600])
            (''ratelimit:'' @ clientIP_of
               (request_of ''POST'' (Some ''1.2.3.4'') (JObj [(''prompt'', JStr ''Hi'')])))
          = Some (entry 50 1700000100 3600)
      \<and> Date_now (runtime 1700000000123 upstream_hello) div 1000
            \<le> resetAt (val (entry 50 1700000100 3600))
      \<and> RATE_LIMIT_REQUESTS \<le> count (val (entry 50 1700000100 3600))"
    by (simp add: fixture_defs clientIP_of_def RATE_LIMIT_REQUESTS_def)
  have k: "clientIP_of (request_of ''POST'' (Some ''1.2.3.4'') (JObj [(''prompt'', JStr ''Hi'')]))
             = ''1.2.3.4''"
    by (simp add: clientIP_of_def request_of_def)
  note t = count_never_exceeds_limit [OF h,
      where p = "runtime 1700000000123 upstream_hello"
      and request = "request_of ''POST'' (Some ''1.2.3.4'') (JObj [(''prompt'', JStr ''Hi'')])"
      and reqs = "[(runtime 1700000000123 upstream_hello,
        request_of ''POST'' (Some ''1.2.3.4'') (JObj [(''prompt'', JStr ''Hi'')])),
       (runtime 1700000000456 upstream_hello,
        request_of ''POST'' (Some ''5.6.7.8'') (JObj [(''prompt'', JStr ''Hi'')]))]"]
  from t have a: "store_ok (RATE_LIMIT (serve
      (env_of (Some (reliable_kv [''ratelimit:1.2.3.4'' \<mapsto> entry 50 1700000100 3600])))
      [(runtime 1700000000123 upstream_hello,
        request_of ''POST'' (Some ''1.2.3.4'') (JObj [(''prompt'', JStr ''Hi'')])),
       (runtime 1700000000456 upstream_hello,
        request_of ''POST'' (Some ''5.6.7.8'') (JObj [(''prompt'', JStr ''Hi'')]))]))"
    by (rule conjunct1)
  have c: "status (resp (fetch (runtime 1700000000123 upstream_hello)
        (request_of ''POST'' (Some ''1.2.3.4'') (JObj [(''prompt'', JStr ''Hi'')]))
        (env_of (Some (reliable_kv [''ratelimit:1.2.3.4'' \<mapsto> entry 50 1700000100 3600]))))) = 429
   \<and> store (fetch (runtime 1700000000123 upstream_hello)
        (request_of ''POST'' (Some ''1.2.3.4'') (JObj [(''prompt'', JStr ''Hi'')]))
        (env_of (Some (reliable_kv [''ratelimit:1.2.3.4'' \<mapsto> entry 50 1700000100 3600])))) =
      Some (reliable_kv [''ratelimit:1.2.3.4'' \<mapsto> entry 50 1700000100 3600])
   \<and> effects (fetch (runtime 1700000000123 upstream_hello)
        (request_of ''POST'' (Some ''1.2.3.4'') (JObj [(''prompt'', JStr ''Hi'')]))
        (env_of (Some (reliable_kv [''ratelimit:1.2.3.4'' \<mapsto> entry 50 1700000100 3600])))) =
      [KVGet (''ratelimit:'' @ clientIP_of
         (request_of ''POST'' (Some ''1.2.3.4'') (JObj [(''prompt'', JStr ''Hi'')])))]"
    by (rule t [THEN conjunct2, THEN conjunct2, rule_format, OF e])
  from h a c show ?thesis by (simp add: k)
qed

text \<open>
  C4. The limiter fails open. With no namespace bound, with a read that rejects, or with a
  write that rejects, its answer is the one of the catch block, which allows. The only
  rejection is the one decided on a record that was read: the namespace is bound, the read
  was answered with a record whose window has not passed and whose count has reached the
  ceiling.
\<close>

theorem checkRateLimit_fail_open:
  "allowed fail_open
   \<and> (RATE_LIMIT env = None \<longrightarrow> rl_result (checkRateLimit p env ip) = fail_open)
   \<and> (\<forall>kv. RATE_LIMIT env = Some kv \<and> get_fails kv (''ratelimit:'' @ ip) \<longrightarrow>
         rl_result (checkRateLimit p env ip) = fail_open)
   \<and> (\<forall>kv v ttl. RATE_LIMIT env = Some kv
         \<and> KVPut (''ratelimit:'' @ ip) v ttl \<in> set (rl_effects (checkRateLimit p env ip))
         \<and> put_fails kv (''ratelimit:'' @ ip) v ttl \<longrightarrow>
         rl_result (checkRateLimit p env ip) = fail_open)
   \<and> (\<not> allowed (rl_result (checkRateLimit p env ip)) \<longrightarrow>
        (\<exists>kv e. RATE_LIMIT env = Some kv
           \<and> \<not> get_fails kv (''ratelimit:'' @ ip)
           \<and> entries kv (''ratelimit:'' @ ip) = Some e
           \<and> Date_now p div 1000 \<le> resetAt (val e)
           \<and> RATE_LIMIT_REQUESTS \<le> count (val e)))"
proof -
  have a: "allowed fail_open" by (simp add: fail_open_def)
  have b: "RATE_LIMIT env = None \<longrightarrow> rl_result (checkRateLimit p env ip) = fail_open"
    by (simp add: checkRateLimit_def)
  have c: "\<forall>kv. RATE_LIMIT env = Some kv \<and> get_fails kv (''ratelimit:'' @ ip) \<longrightarrow>
         rl_result (checkRateLimit p env ip) = fail_open"
    by (simp add: checkRateLimit_def kv_get_def)
  have d: "\<forall>kv v ttl. RATE_LIMIT env = Some kv
         \<and> KVPut (''ratelimit:'' @ ip) v ttl \<in> set (rl_effects (checkRateLimit p env ip))
         \<and> put_fails kv (''ratelimit:'' @ ip) v ttl \<longrightarrow>
         rl_result (checkRateLimit p env ip) = fail_open"
    by (auto simp: checkRateLimit_def Let_def put_and_return_def kv_put_def
          split: option.splits sum.splits if_splits)
  have e: "\<not> allowed (rl_result (checkRateLimit p env ip)) \<longrightarrow>
        (\<exists>kv e. RATE_LIMIT env = Some kv
           \<and> \<not> get_fails kv (''ratelimit:'' @ ip)
           \<and> entries kv (''ratelimit:'' @ ip) = Some e
           \<and> Date_now p div 1000 \<le> resetAt (val e)
           \<and> RATE_LIMIT_REQUESTS \<le> count (val e))"
    by (auto simp: checkRateLimit_def Let_def put_and_return_simps kv_get_def fail_open_def
          split: option.splits sum.splits if_splits)
  from a b c d e show ?thesis by blast
qed

theorem checkRateLimit_fail_open_witness:
  "RATE_LIMIT (env_of None) = None
   \<and> allowed (rl_result (checkRateLimit (runtime 1700000000123 upstream_hello)
        (env_of None) ''1.2.3.4''))
   \<and> get_fails (unreadable_kv [''ratelimit:1.2.3.4'' \<mapsto> entry 50 1700000100 3600])
        ''ratelimit:1.2.3.4''
   \<and> allowed (rl_result (checkRateLimit (runtime 1700000000123 upstream_hello)
        (env_of (Some (unreadable_kv [''ratelimit:1.2.3.4'' \<mapsto> entry 50 1700000100 3600])))
        ''1.2.3.4''))
   \<and> put_fails (readonly_kv [''ratelimit:1.2.3.4'' \<mapsto> entry 49 1700000100 3600])
        ''ratelimit:1.2.3.4'' \<lparr>count = 50, resetAt = 1700000100\<rparr> 100
   \<and> allowed (rl_result (checkRateLimit (runtime 1700000000123 upstream_hello)
        (env_of (Some (readonly_kv [''ratelimit:1.2.3.4'' \<mapsto> entry 49 1700000100 3600])))
        ''1.2.3.4''))
   \<and> \<not> allowed (rl_result (checkRateLimit (runtime 1700000000123 upstream_hello)
        (env_of (Some (reliable_kv [''ratelimit:1.2.3.4'' \<mapsto> entry 50 1700000100 3600])))
        ''1.2.3.4''))"
  using
    checkRateLimit_fail_open [of "env_of None" "runtime 1700000000123 upstream_hello"
      "''1.2.3.4''"]
    checkRateLimit_fail_open
      [of "env_of (Some (unreadable_kv [''ratelimit:1.2.3.4'' \<mapsto> entry 50 1700000100 3600]))"
       "runtime 1700000000123 upstream_hello" "''1.2.3.4''"]
    checkRateLimit_fail_open
      [of "env_of (Some (readonly_kv [''ratelimit:1.2.3.4'' \<mapsto> entry 49 1700000100 3600]))"
       "runtime 1700000000123 upstream_hello" "''1.2.3.4''"]
  by (simp add: fixture_defs handler_defs)

text \<open>
  C9. A request without the \<open>CF-Connecting-IP\<close> header has the client identifier
  \<open>unknown\<close>, and every key-value call it causes is on the key \<open>ratelimit:unknown\<close>. Two
  such POST requests, whoever sent them, draw on the same record: starting with no record,
  the first leaves the count 1 and the second, arriving within the window, leaves it 2.
\<close>

theorem unknown_client_shared_record:
  assumes "headers request ''CF-Connecting-IP'' = None"
  shows "clientIP_of request = ''unknown''
     \<and> list_all (on_key ''ratelimit:unknown'') (effects (fetch p request env))
     \<and> (\<forall>request' p' kv.
           headers request' ''CF-Connecting-IP'' = None
           \<and> http_method request = ''POST'' \<and> http_method request' = ''POST''
           \<and> RATE_LIMIT env = Some kv
           \<and> entries kv ''ratelimit:unknown'' = None
           \<and> \<not> get_fails kv ''ratelimit:unknown''
           \<and> (\<forall>v ttl. \<not> put_fails kv ''ratelimit:unknown'' v ttl)
           \<and> Date_now p' div 1000 \<le> Date_now p div 1000 + RATE_LIMIT_WINDOW \<longrightarrow>
           stored_count (store (fetch p request env)) ''ratelimit:unknown'' = Some 1
           \<and> stored_count (RATE_LIMIT (serve env [(p, request), (p', request')]))
               ''ratelimit:unknown'' = Some 2)"
proof -
  have ip: "clientIP_of request = ''unknown''"
    using assms by (simp add: clientIP_of_def)
  have fx: "list_all (on_key ''ratelimit:unknown'') (effects (fetch p request env))"
  proof (cases "http_method request = ''POST''")
    case False
    then show ?thesis by (simp add: fetch_not_POST)
  next
    case True
    then obtain fx where fx: "effects (fetch p request env) =
           rl_effects (checkRateLimit p env (clientIP_of request)) @ fx"
      "list_all is_upstream fx"
      using fetch_effects_split by blast
    have "list_all (on_key ''ratelimit:unknown'') fx"
    proof -
      have "on_key ''ratelimit:unknown'' x" if "is_upstream x" for x
        using that by (cases x) simp_all
      with fx(2) show ?thesis by (auto simp: list_all_iff)
    qed
    with fx(1) checkRateLimit_on_key [of "''unknown''" p env] ip show ?thesis by simp
  qed
  have shared: "stored_count (store (fetch p request env)) ''ratelimit:unknown'' = Some 1
           \<and> stored_count (RATE_LIMIT (serve env [(p, request), (p', request')]))
               ''ratelimit:unknown'' = Some 2"
    if h: "headers request' ''CF-Connecting-IP'' = None"
       "http_method request = ''POST''" "http_method request' = ''POST''"
       "RATE_LIMIT env = Some kv"
       "entries kv ''ratelimit:unknown'' = None"
       "\<not> get_fails kv ''ratelimit:unknown''"
       "\<forall>v ttl. \<not> put_fails kv ''ratelimit:unknown'' v ttl"
       "Date_now p' div 1000 \<le> Date_now p div 1000 + RATE_LIMIT_WINDOW"
    for request' p' kv
  proof -
    have ip': "clientIP_of request' = ''unknown''"
      using h(1) by (simp add: clientIP_of_def)
    define fresh where "fresh = \<lparr>val = \<lparr>count = 1, resetAt = Date_now p div 1000 + RATE_LIMIT_WINDOW\<rparr>,
                                 expirationTtl = RATE_LIMIT_WINDOW\<rparr>"
    define kv1 where "kv1 = kv\<lparr>entries := (entries kv)(''ratelimit:unknown'' \<mapsto> fresh)\<rparr>"
    have s1: "store (fetch p request env) = Some kv1"
      using h(2,4-7) ip
      by (simp add: fetch_POST_store checkRateLimit_def kv_get_def Let_def
            put_and_return_simps kv1_def fresh_def)
    have s2: "stored_count (store (fetch p' request' (env\<lparr>RATE_LIMIT := Some kv1\<rparr>)))
               ''ratelimit:unknown'' = Some 2"
      using h(3,6-8) ip'
      by (simp add: fetch_POST_store checkRateLimit_def kv_get_def Let_def
            put_and_return_simps kv1_def fresh_def stored_count_def RATE_LIMIT_REQUESTS_def)
    show ?thesis
      using s1 s2 by (simp add: stored_count_def kv1_def fresh_def)
  qed
  from ip fx shared show ?thesis by blast
qed

theorem unknown_client_shared_record_witness:
  "headers (request_of ''POST'' None (JObj [(''prompt'', JStr ''Hi'')])) ''CF-Connecting-IP'' = None
   \<and> clientIP_of (request_of ''POST'' None (JObj [(''prompt'', JStr ''Hi'')])) = ''unknown''
   \<and> effects (fetch (runtime 1700000000123 upstream_overloaded)
        (request_of ''POST'' None (JObj []))
        (env_of (Some (reliable_kv Map.empty)))) =
      [KVGet ''ratelimit:unknown'',
       KVPut ''ratelimit:unknown'' \<lparr>count = 1, resetAt = 1700003600\<rparr> 3600]
   \<and> stored_count (RATE_LIMIT (serve (env_of (Some (reliable_kv Map.empty)))
        [(runtime 1700000000123 upstream_overloaded, request_of ''POST'' None (JObj [])),
         (runtime 1700000500000 upstream_hello,
          request_of ''POST'' None (JObj [(''message'', JStr ''Hi'')]))]))
        ''ratelimit:unknown'' = Some 2"
  using
    unknown_client_shared_record
      [of "request_of ''POST'' None (JObj [(''prompt'', JStr ''Hi'')])"
          "runtime 1700000000123 upstream_overloaded" "env_of (Some (reliable_kv Map.empty))"]
    unknown_client_shared_record
      [of "request_of ''POST'' None (JObj [])"
          "runtime 1700000000123 upstream_overloaded" "env_of (Some (reliable_kv Map.empty))"]
  by (simp add: fixture_defs handler_defs stored_count_def)

subsection \<open>Methods\<close>

text \<open>
  C6. An OPTIONS request is answered with status 204, no body and the fixed headers, and
  issues no call at all: the namespace is unchanged and the list of effects is empty.
\<close>

theorem preflight_answer:
  assumes "http_method request = ''OPTIONS''"
  shows "fetch p request env =
           \<lparr>resp = \<lparr>status = 204,
                    resp_headers =
                      [(''Content-Type'', ''application/json''),
                       (''Access-Control-Allow-Origin'', ''*''),
                       (''Access-Control-Allow-Methods'', ''POST, OPTIONS''),
                       (''Access-Control-Allow-Headers'', ''Content-Type''),
                       (''Access-Control-Max-Age'', ''86400'')],
                    resp_body = NoBody\<rparr>,
            store = RATE_LIMIT env,
            effects = []\<rparr>"
  using assms by (simp add: fetch_def handleCORS_def corsHeaders_def)

theorem preflight_answer_witness:
  "http_method (request_of ''OPTIONS'' (Some ''1.2.3.4'') JNull) = ''OPTIONS''
   \<and> status (resp (fetch (runtime 1700000000123 upstream_hello)
         (request_of ''OPTIONS'' (Some ''1.2.3.4'') JNull)
         (env_of (Some (reliable_kv Map.empty))))) = 204
   \<and> effects (fetch (runtime 1700000000123 upstream_hello)
         (request_of ''OPTIONS'' (Some ''1.2.3.4'') JNull)
         (env_of (Some (reliable_kv Map.empty)))) = []"
  using preflight_answer [of "request_of ''OPTIONS'' (Some ''1.2.3.4'') JNull"
      "runtime 1700000000123 upstream_hello" "env_of (Some (reliable_kv Map.empty))"]
  by (simp add: request_of_def)

text \<open>
  C7, as amended. A request whose method is neither OPTIONS nor POST is answered with
  status 405 and the plain-text body \<open>Method not allowed\<close>. The answer carries the
  \<open>content-type: text/plain;charset=UTF-8\<close> header of a response built from a string and
  none of the CORS headers, and the request issues no call.
\<close>

theorem other_method_answer:
  assumes "http_method request \<noteq> ''OPTIONS''" and "http_method request \<noteq> ''POST''"
  shows "fetch p request env =
           \<lparr>resp = \<lparr>status = 405,
                    resp_headers = [(''content-type'', ''text/plain;charset=UTF-8'')],
                    resp_body = TextBody ''Method not allowed''\<rparr>,
            store = RATE_LIMIT env,
            effects = []\<rparr>
         \<and> (\<forall>h \<in> set corsHeaders. h \<notin> set (resp_headers (resp (fetch p request env))))"
  using assms by (simp add: fetch_def text_plain_headers_def corsHeaders_def)

theorem other_method_answer_witness:
  "http_method (request_of ''GET'' (Some ''1.2.3.4'') JNull) \<noteq> ''OPTIONS''
   \<and> http_method (request_of ''GET'' (Some ''1.2.3.4'') JNull) \<noteq> ''POST''
   \<and> resp (fetch (runtime 1700000000123 upstream_hello)
         (request_of ''GET'' (Some ''1.2.3.4'') JNull)
         (env_of (Some (reliable_kv Map.empty)))) =
       \<lparr>status = 405,
        resp_headers = [(''content-type'', ''text/plain;charset=UTF-8'')],
        resp_body = TextBody ''Method not allowed''\<rparr>"
  using other_method_answer [of "request_of ''GET'' (Some ''1.2.3.4'') JNull"
      "runtime 1700000000123 upstream_hello" "env_of (Some (reliable_kv Map.empty))"]
  by (simp add: request_of_def)

text \<open>
  As first stated (a 405 answer with no body) the property fails: the answer to a GET
  request has a body.
\<close>

theorem other_method_counterexample:
  "\<not> (status (resp (fetch (runtime 1700000000123 upstream_hello)
           (request_of ''GET'' (Some ''1.2.3.4'') JNull)
           (env_of (Some (reliable_kv Map.empty))))) = 405
      \<and> resp_body (resp (fetch (runtime 1700000000123 upstream_hello)
           (request_of ''GET'' (Some ''1.2.3.4'') JNull)
           (env_of (Some (reliable_kv Map.empty))))) = NoBody)"
  by (simp add: fetch_def request_of_def text_plain_headers_def)

subsection \<open>Validation of the body\<close>

text \<open>
  C2, as amended. A POST request that the limiter allows, whose body parses to a value
  other than \<open>null\<close> and in which \<open>prompt || message\<close> is falsy or not a string (both
  fields absent or falsy, or a truthy \<open>prompt\<close> that is not a string), is answered with
  status 400 and the error body \<open>Invalid request: prompt is required\<close>. No upstream
  call is made. The key-value calls of the request are those of the rate-limit check, which
  runs before the body is read, and the namespace is left as that check left it.
\<close>

theorem invalid_prompt_rejected:
  assumes "http_method request = ''POST''"
    and "allowed (rl_result (checkRateLimit p env (clientIP_of request)))"
    and "json request = Inr body"
    and "get_prop body ''prompt'' = Inr pr"
    and "get_prop body ''message'' = Inr msg"
    and "\<not> truthy (js_or pr msg) \<or> \<not> is_string (js_or pr msg)"
  shows "resp (fetch p request env) =
           \<lparr>status = 400,
            resp_headers = corsHeaders,
            resp_body = JsonBody (JObj [(''error'', JStr ''Invalid request: prompt is required'')])\<rparr>
         \<and> effects (fetch p request env) = rl_effects (checkRateLimit p env (clientIP_of request))
         \<and> store (fetch p request env) = rl_store (checkRateLimit p env (clientIP_of request))
         \<and> \<not> list_ex is_upstream (effects (fetch p request env))"
proof -
  have pt: "promptText_of body = Inr (js_or pr msg)"
    using assms(4,5) by (simp add: promptText_of_def js_or_def)
  have "forward p request env =
          (Inr (error_response 400 ''Invalid request: prompt is required''), [])"
    using assms(3,6) pt by (auto simp: forward_def)
  then have "fetch p request env =
      \<lparr>resp = error_response 400 ''Invalid request: prompt is required'',
       store = rl_store (checkRateLimit p env (clientIP_of request)),
       effects = rl_effects (checkRateLimit p env (clientIP_of request))\<rparr>"
    using fetch_POST_allowed [OF assms(1,2)] by (simp add: Let_def)
  then show ?thesis
    using checkRateLimit_no_upstream [of p env "clientIP_of request"]
    by (simp add: error_response_def json_response_def)
qed

theorem invalid_prompt_rejected_witness:
  "status (resp (fetch (runtime 1700000000123 upstream_hello)
       (request_of ''POST'' (Some ''1.2.3.4'') (JObj [(''prompt'', JNum 5), (''message'', JStr ''Hi'')]))
       (env_of (Some (reliable_kv [''ratelimit:1.2.3.4'' \<mapsto> entry 1 1700000100 3600]))))) = 400
   \<and> effects (fetch (runtime 1700000000123 upstream_hello)
       (request_of ''POST'' (Some ''1.2.3.4'') (JObj [(''prompt'', JNum 5), (''message'', JStr ''Hi'')]))
       (env_of (Some (reliable_kv [''ratelimit:1.2.3.4'' \<mapsto> entry 1 1700000100 3600])))) =
     [KVGet ''ratelimit:1.2.3.4'',
      KVPut ''ratelimit:1.2.3.4'' \<lparr>count = 2, resetAt = 1700000100\<rparr> 100]"
  using invalid_prompt_rejected
    [of "request_of ''POST'' (Some ''1.2.3.4'') (JObj [(''prompt'', JNum 5), (''message'', JStr ''Hi'')])"
        "runtime 1700000000123 upstream_hello"
        "env_of (Some (reliable_kv [''ratelimit:1.2.3.4'' \<mapsto> entry 1 1700000100 3600]))"
        "JObj [(''prompt'', JNum 5), (''message'', JStr ''Hi'')]" "JNum 5" "JStr ''Hi''"]
  by (simp add: fixture_defs checkRateLimit_def put_and_return_def kv_get_def kv_put_def
        clientIP_of_def js_or_def Let_def RATE_LIMIT_REQUESTS_def)

text \<open>
  As first stated the property fails. A request with the body \<open>{}\<close> from a client whose
  stored count is 1 is answered with 400, and the stored count is 2 afterwards. A request
  whose body has no \<open>prompt\<close> but a \<open>message\<close> is not answered with 400.
\<close>

theorem invalid_prompt_counterexample:
  "\<not> (status (resp (fetch (runtime 1700000000123 upstream_hello)
           (request_of ''POST'' (Some ''1.2.3.4'') (JObj []))
           (env_of (Some (reliable_kv [''ratelimit:1.2.3.4'' \<mapsto> entry 1 1700000100 3600]))))) = 400
       \<and> stored_count (store (fetch (runtime 1700000000123 upstream_hello)
           (request_of ''POST'' (Some ''1.2.3.4'') (JObj []))
           (env_of (Some (reliable_kv [''ratelimit:1.2.3.4'' \<mapsto> entry 1 1700000100 3600])))))
           ''ratelimit:1.2.3.4'' =
         stored_count (RATE_LIMIT
           (env_of (Some (reliable_kv [''ratelimit:1.2.3.4'' \<mapsto> entry 1 1700000100 3600]))))
           ''ratelimit:1.2.3.4'')
   \<and> \<not> (status (resp (fetch (runtime 1700000000123 upstream_hello)
           (request_of ''POST'' (Some ''1.2.3.4'') (JObj [(''message'', JStr ''Hi'')]))
           (env_of (Some (reliable_kv Map.empty))))) = 400)"
  by (simp add: fixture_defs handler_defs stored_count_def)



subsection \<open>The upstream answer\<close>

text \<open>
  C5. When the upstream call of a POST request answers with a status outside 200 to 299,
  whatever the text of its body, the handler answers with status 503, the CORS headers and
  exactly the body \<open>{error: 'AI service temporarily unavailable'}\<close>; the answer does not
  depend on the upstream body.
\<close>

theorem upstream_failure_generic:
  assumes "http_method request = ''POST''"
    and "allowed (rl_result (checkRateLimit p env (clientIP_of request)))"
    and "json request = Inr body"
    and "promptText_of body = Inr (JStr t)" and "t \<noteq> []"
    and "ANTHROPIC_API_KEY env = Some k" and "k \<noteq> []"
    and "get_prop body ''system'' = Inr sys"
    and "global_fetch p (upstream_request_of k sys t) = Inr r"
    and "\<not> (200 \<le> up_status r \<and> up_status r \<le> 299)"
    and "up_text r = Inr errorText"
  shows "resp (fetch p request env) =
           \<lparr>status = 503,
            resp_headers = corsHeaders,
            resp_body = JsonBody (JObj [(''error'', JStr ''AI service temporarily unavailable'')])\<rparr>"
proof -
  have "forward p request env = (relay p r, [UpstreamFetch (upstream_request_of k sys t)])"
    using assms(3-9) by (rule forward_upstream)
  moreover have "relay p r = Inr (error_response 503 ''AI service temporarily unavailable'')"
    using assms(10,11) by (simp add: relay_def ok_def)
  ultimately show ?thesis
    using fetch_POST_allowed [OF assms(1,2)]
    by (simp add: error_response_def json_response_def Let_def)
qed

theorem upstream_failure_generic_witness:
  "resp (fetch (runtime 1700000000123 upstream_overloaded)
       (request_of ''POST'' (Some ''1.2.3.4'') (JObj [(''prompt'', JStr ''Hi'')]))
       (env_of (Some (reliable_kv Map.empty)))) =
     \<lparr>status = 503,
      resp_headers = corsHeaders,
      resp_body = JsonBody (JObj [(''error'', JStr ''AI service temporarily unavailable'')])\<rparr>"
  using upstream_failure_generic
    [of "request_of ''POST'' (Some ''1.2.3.4'') (JObj [(''prompt'', JStr ''Hi'')])"
        "runtime 1700000000123 upstream_overloaded"
        "env_of (Some (reliable_kv Map.empty))"
        "JObj [(''prompt'', JStr ''Hi'')]" "''Hi''" "''sk-test''" JUndefined
        "\<lparr>up_status = 529, up_text = Inr ''overloaded_error: upstream is busy'',
          up_json = Inr (JObj [(''type'', JStr ''error'')])\<rparr>"
        "''overloaded_error: upstream is busy''"]
  by (simp add: fixture_defs checkRateLimit_def put_and_return_def kv_get_def kv_put_def
        promptText_of_def clientIP_of_def Let_def)

text \<open>
  C8. When the upstream call of a POST request answers with a status from 200 to 299 and a
  JSON body whose \<open>content\<close> is a list of blocks (none of them \<open>null\<close>, the ones tagged
  \<open>text\<close> carrying a string \<open>text\<close>), the handler answers with status 200 and a body
  with the single field \<open>response\<close>: the \<open>text\<close> fields of exactly the blocks tagged
  \<open>text\<close>, in order, separated by newlines.
\<close>

theorem upstream_success_text:
  assumes "http_method request = ''POST''"
    and "allowed (rl_result (checkRateLimit p env (clientIP_of request)))"
    and "json request = Inr body"
    and "promptText_of body = Inr (JStr t)" and "t \<noteq> []"
    and "ANTHROPIC_API_KEY env = Some k" and "k \<noteq> []"
    and "get_prop body ''system'' = Inr sys"
    and "global_fetch p (upstream_request_of k sys t) = Inr r"
    and "200 \<le> up_status r \<and> up_status r \<le> 299"
    and "up_json r = Inr data"
    and "get_prop data ''content'' = Inr (JArr blocks)"
    and "\<forall>b \<in> set blocks. b \<noteq> JUndefined \<and> b \<noteq> JNull"
    and "\<forall>b \<in> set blocks. is_text_block b \<longrightarrow> (\<exists>s. get_prop b ''text'' = Inr (JStr s))"
  shows "resp (fetch p request env) =
           \<lparr>status = 200,
            resp_headers = corsHeaders,
            resp_body = JsonBody (JObj [(''response'',
              JStr (separated_by [CHR 0x0A]
                     (map block_text (filter is_text_block blocks))))])\<rparr>"
proof -
  have "forward p request env = (relay p r, [UpstreamFetch (upstream_request_of k sys t)])"
    using assms(3-9) by (rule forward_upstream)
  moreover have "extract_text p data =
      Inr (separated_by [CHR 0x0A] (map block_text (filter is_text_block blocks)))"
    using assms(12-14) by (rule extract_text_eq)
  then have "relay p r = Inr (json_response 200 (JObj [(''response'',
              JStr (separated_by [CHR 0x0A]
                     (map block_text (filter is_text_block blocks))))]))"
    using assms(10,11) by (simp add: relay_def ok_def)
  ultimately show ?thesis
    using fetch_POST_allowed [OF assms(1,2)]
    by (simp add: json_response_def Let_def)
qed

theorem upstream_success_text_witness:
  "resp (fetch (runtime 1700000000123 upstream_hello)
       (request_of ''POST'' (Some ''1.2.3.4'') (JObj [(''prompt'', JStr ''Hi'')]))
       (env_of (Some (reliable_kv Map.empty)))) =
     \<lparr>status = 200,
      resp_headers = corsHeaders,
      resp_body = JsonBody (JObj [(''response'', JStr (''Hello'' @ [CHR 0x0A] @ ''World''))])\<rparr>"
  using upstream_success_text
    [of "request_of ''POST'' (Some ''1.2.3.4'') (JObj [(''prompt'', JStr ''Hi'')])"
        "runtime 1700000000123 upstream_hello"
        "env_of (Some (reliable_kv Map.empty))"
        "JObj [(''prompt'', JStr ''Hi'')]" "''Hi''" "''sk-test''" JUndefined
        "\<lparr>up_status = 200, up_text = Inr ''ok'',
          up_json = Inr (JObj [(''content'',
            JArr [JObj [(''type'', JStr ''text''), (''text'', JStr ''Hello'')],
                  JObj [(''type'', JStr ''tool_use''), (''id'', JStr ''t1'')],
                  JObj [(''type'', JStr ''text''), (''text'', JStr ''World'')]])])\<rparr>"
        "JObj [(''content'',
            JArr [JObj [(''type'', JStr ''text''), (''text'', JStr ''Hello'')],
                  JObj [(''type'', JStr ''tool_use''), (''id'', JStr ''t1'')],
                  JObj [(''type'', JStr ''text''), (''text'', JStr ''World'')]])]"
        "[JObj [(''type'', JStr ''text''), (''text'', JStr ''Hello'')],
          JObj [(''type'', JStr ''tool_use''), (''id'', JStr ''t1'')],
          JObj [(''type'', JStr ''text''), (''text'', JStr ''World'')]]"]
  by (simp add: fixture_defs checkRateLimit_def put_and_return_def kv_get_def kv_put_def
        promptText_of_def clientIP_of_def Let_def is_text_block_def block_text_def)

end
